theory Spec2Isabelle
  imports Complex_Main
begin

section \<open>The F1 dashboard refresh engine (main.py)\<close>

text \<open>
  A shallow embedding of the class \<open>F1Dashboard\<close> of \<open>main.py\<close>: its constructor, the
  timer callback \<open>update_dashboard\<close>, the one-shot \<open>plot_driver_positions\<close> and the
  polling loop \<open>fetch_live_positions\<close>.

  The telemetry library and the plotting library are not part of the repository. Every
  call into the telemetry library is a parameter of the model (a field of
  \<open>session_data\<close> or of \<open>provider\<close>) that returns either the exception it raises or its
  value. A plotting call is recorded, in call order, as a \<open>draw\<close> command on the drawable
  it is made on; \<open>clear\<close> empties that record. \<open>pie\<close> is the one plotting call whose
  arguments come from two different reads (the ranks and the local \<open>drivers\<close>), and the
  checks it makes on them are modelled (\<open>pie_error\<close>); the other plotting calls are taken
  to succeed. Colours, fonts and figure geometry are not recorded.
\<close>

subsection \<open>Exceptions\<close>

text \<open>
  An exception is its class name and the text that \<open>str(e)\<close> gives. The model covers the
  instances of \<open>Exception\<close>: these are what both handler forms of the source
  (\<open>except Exception as e\<close> and the bare \<open>except\<close>) catch.
\<close>

datatype exn = Exn (exn_class: string) (exn_msg: string)

definition AttributeError :: "string \<Rightarrow> exn" where
  "AttributeError attr = Exn ''AttributeError'' attr"

definition UnboundLocalError :: "string \<Rightarrow> exn" where
  "UnboundLocalError var = Exn ''UnboundLocalError'' var"

subsection \<open>Drawables\<close>

type_synonym xy = "(int \<times> int) list"

datatype draw =
    Set_title string
  | Scatter xy string
  | Legend
  | Text_centre string
  | Strategy_text int "string list"
  | Bar "string list" "rat list"
  | Set_xticklabels "string list"
  | Set_ylabel string
  | Pie "int list" "string list"
  | Plot_track xy
  | Plot_line xy
  | Set_xlabel string
  | Plt_title string int
  | Pause nat
  | Show

text \<open>
  \<open>Scatter xy l\<close> is \<open>scatter(pos_data['X'], pos_data['Y'], label=l)\<close>;
  \<open>Text_centre t\<close> is \<open>text(0.5, 0.5, t)\<close> with centred alignment;
  \<open>Strategy_text k cs\<close> is the row \<open>text(0.1, 0.9 - 0.1 * k, f"{k}: {' -> '.join(cs)}")\<close>;
  \<open>Pie w l\<close> is \<open>pie(w, labels=l)\<close>: the first argument of \<open>pie\<close> is the wedge sizes;
  \<open>Plt_title ev y\<close> is \<open>plt.title(f"Driver Positions - {ev} {y}")\<close>.
\<close>

definition clear :: "draw list \<Rightarrow> draw list" where
  "clear ax = []"

subsection \<open>The loaded session\<close>

text \<open>
  \<open>'f\<close> is the type of one lap (a row of the laps table); the laps table is the list of
  its rows, in table order. The fields are the library calls the source makes:
  \<open>session_laps\<close> and \<open>session_drivers\<close> are the properties \<open>self.session.laps\<close> and
  \<open>self.session.drivers\<close>; \<open>get_pos_data\<close> is \<open>lap.get_pos_data()\<close> read at its columns
  \<open>X\<close> and \<open>Y\<close>; \<open>get_car_data\<close> is \<open>lap.get_car_data().add_distance()\<close>;
  \<open>lap_time_seconds\<close> is \<open>x['LapTime'].dt.total_seconds()\<close>, \<open>driver_column\<close> is
  \<open>x['Driver']\<close> and \<open>position_column\<close> is \<open>x['Position']\<close>, each typed as the sequence
  the plotting call that consumes it takes. The keys of \<open>tire_strategies\<close> are numbers,
  since the source multiplies them by \<open>0.1\<close>.
\<close>

record 'f session_data =
  session_laps :: "exn + 'f list"
  session_drivers :: "exn + string list"
  pick_driver :: "'f list \<Rightarrow> string \<Rightarrow> exn + 'f list"
  pick_fastest :: "'f list \<Rightarrow> exn + 'f"
  get_pos_data :: "'f \<Rightarrow> exn + xy"
  get_car_data :: "'f \<Rightarrow> exn + xy"
  tire_strategies :: "'f list \<Rightarrow> exn + (int \<times> string list) list"
  lap_time_seconds :: "'f \<Rightarrow> exn + rat list"
  driver_column :: "'f \<Rightarrow> exn + string list"
  position_column :: "'f \<Rightarrow> exn + int list"
  get_circuit :: "exn + xy"

text \<open>
  The provider: \<open>get_session\<close> is \<open>fastf1.get_session(year, event_name, 'Race')\<close>, the
  session before it is loaded; \<open>load live n\<close> is the outcome of the call of
  \<open>session.load\<close> that is made after \<open>n\<close> earlier ones: the exception it raises or the
  data the session holds afterwards.
\<close>

record 'f provider =
  get_session :: "int \<Rightarrow> string \<Rightarrow> exn + 'f session_data"
  load :: "bool \<Rightarrow> nat \<Rightarrow> exn + 'f session_data"

subsection \<open>The dashboard object\<close>

text \<open>
  \<open>plots\<close> holds what one \<open>plt.subplots\<close> assignment binds (\<open>self.fig\<close> and
  \<open>self.ax1\<close> .. \<open>self.ax4\<close>); it is \<open>None\<close> while these attributes do not exist.
  \<open>animation\<close> is the repeating timer (its interval in milliseconds), \<open>None\<close> while the
  attribute does not exist. \<open>loads\<close> counts the calls of \<open>session.load\<close> made so far,
  \<open>plt_current\<close> is the figure the \<open>plt.*\<close> calls draw on and \<open>stdout\<close> the printed lines.
\<close>

record plots =
  facecolor :: string
  suptitle :: "int \<times> string"
  ax1 :: "draw list"
  ax2 :: "draw list"
  ax3 :: "draw list"
  ax4 :: "draw list"

record 'f dash =
  year :: int
  event_name :: string
  session :: "'f session_data"
  loads :: nat
  plots :: "plots option"
  animation :: "nat option"
  plt_current :: "draw list"
  stdout :: "string list"

subsection \<open>update_dashboard\<close>

text \<open>
  The local variables \<open>laps\<close> and \<open>drivers\<close> of \<open>update_dashboard\<close> are shared by its
  four \<open>try\<close> blocks; \<open>None\<close> is an unbound local, whose read raises
  \<open>UnboundLocalError\<close>.
\<close>

record 'f locals =
  laps_var :: "'f list option"
  drivers_var :: "string list option"

text \<open>
  A \<open>try\<close> body yields the exception that ended it, if any, and the state it reached;
  the handler runs on that state.
\<close>

definition try_except :: "exn option \<times> 'a \<Rightarrow> (exn \<Rightarrow> 'a \<Rightarrow> 'a) \<Rightarrow> 'a" where
  "try_except r handler = (case r of (None, st) \<Rightarrow> st | (Some e, st) \<Rightarrow> handler e st)"

text \<open>Lines 117-121: the loop over \<open>drivers\<close> of the Positions block.\<close>

fun positions_loop ::
  "'f session_data \<Rightarrow> 'f list \<Rightarrow> string list \<Rightarrow> draw list \<Rightarrow> exn option \<times> draw list" where
  "positions_loop s L [] ax = (None, ax)"
| "positions_loop s L (driver # rest) ax =
     (case pick_driver s L driver of
        Inl e \<Rightarrow> (Some e, ax)
      | Inr driver_laps \<Rightarrow>
          (case pick_fastest s driver_laps of
             Inl e \<Rightarrow> (Some e, ax)
           | Inr driver_lap \<Rightarrow>
               (case get_pos_data s driver_lap of
                  Inl e \<Rightarrow> (Some e, ax)
                | Inr pos_data \<Rightarrow> positions_loop s L rest (ax @ [Scatter pos_data driver]))))"

text \<open>Lines 113-123, the \<open>try\<close> body of the Positions block.\<close>

definition positions_try ::
  "'f session_data \<Rightarrow> 'f locals \<times> draw list \<Rightarrow> exn option \<times> 'f locals \<times> draw list" where
  "positions_try s st =
     (case st of (lv, ax) \<Rightarrow>
       (case session_laps s of
          Inl e \<Rightarrow> (Some e, lv, ax)
        | Inr L \<Rightarrow>
            (let lv = lv\<lparr>laps_var := Some L\<rparr> in
             case session_drivers s of
               Inl e \<Rightarrow> (Some e, lv, ax)
             | Inr ds \<Rightarrow>
                 (let lv = lv\<lparr>drivers_var := Some ds\<rparr> in
                  case positions_loop s L ds ax of
                    (Some e, ax') \<Rightarrow> (Some e, lv, ax')
                  | (None, ax') \<Rightarrow> (None, lv, ax' @ [Legend])))))"

text \<open>Lines 110-125.\<close>

definition positions_block :: "'f session_data \<Rightarrow> 'f locals \<times> draw list \<Rightarrow> 'f locals \<times> draw list" where
  "positions_block s st =
     (case st of (lv, ax) \<Rightarrow>
        try_except (positions_try s (lv, clear ax @ [Set_title ''Live Driver Positions'']))
          (\<lambda>e (lv, ax). (lv, ax @ [Text_centre (''Error: '' @ exn_msg e)])))"

text \<open>The fallback of the three bare \<open>except\<close> handlers.\<close>

definition na_fallback :: "string \<Rightarrow> exn \<Rightarrow> 'f locals \<times> draw list \<Rightarrow> 'f locals \<times> draw list" where
  "na_fallback title e st = (case st of (lv, ax) \<Rightarrow> (lv, ax @ [Text_centre ''N/A'', Set_title title]))"

text \<open>Lines 132-148; the axis was cleared at line 130.\<close>

definition tyre_try ::
  "'f session_data \<Rightarrow> 'f locals \<times> draw list \<Rightarrow> exn option \<times> 'f locals \<times> draw list" where
  "tyre_try s st =
     (case st of (lv, ax) \<Rightarrow>
       (case session_laps s of
          Inl e \<Rightarrow> (Some e, lv, ax)
        | Inr L \<Rightarrow>
            (let lv = lv\<lparr>laps_var := Some L\<rparr> in
             case tire_strategies s L of
               Inl e \<Rightarrow> (Some e, lv, ax)
             | Inr tyre_strategies \<Rightarrow>
                 (None, lv, ax @ map (\<lambda>(driver, strategy). Strategy_text driver strategy) tyre_strategies
                                @ [Set_title ''Tyre Strategies'']))))"

definition tyre_block :: "'f session_data \<Rightarrow> 'f locals \<times> draw list \<Rightarrow> 'f locals \<times> draw list" where
  "tyre_block s st =
     (case st of (lv, ax) \<Rightarrow>
        try_except (tyre_try s (lv, clear ax)) (na_fallback ''Tyre Strategies''))"

text \<open>Lines 150-164.\<close>

definition lap_times_try ::
  "'f session_data \<Rightarrow> 'f locals \<times> draw list \<Rightarrow> exn option \<times> 'f locals \<times> draw list" where
  "lap_times_try s st =
     (case st of (lv, ax) \<Rightarrow>
       (case laps_var lv of
          None \<Rightarrow> (Some (UnboundLocalError ''laps''), lv, ax)
        | Some L \<Rightarrow>
            (case pick_fastest s L of
               Inl e \<Rightarrow> (Some e, lv, ax)
             | Inr current_lap_times \<Rightarrow>
                 (case lap_time_seconds s current_lap_times of
                    Inl e \<Rightarrow> (Some e, lv, ax)
                  | Inr lap_secs \<Rightarrow>
                      (case driver_column s current_lap_times of
                         Inl e \<Rightarrow> (Some e, lv, ax)
                       | Inr ds \<Rightarrow>
                           (None, lv\<lparr>drivers_var := Some ds\<rparr>,
                            ax @ [Bar ds lap_secs, Set_xticklabels ds,
                                  Set_ylabel ''Lap Time (seconds)'',
                                  Set_title ''Current Lap Times'']))))))"

definition lap_times_block :: "'f session_data \<Rightarrow> 'f locals \<times> draw list \<Rightarrow> 'f locals \<times> draw list" where
  "lap_times_block s st =
     (case st of (lv, ax) \<Rightarrow>
        try_except (lap_times_try s (lv, clear ax)) (na_fallback ''Current Lap Times''))"

text \<open>
  What \<open>ax.pie(x, labels=l)\<close> raises: \<open>ValueError\<close> on a negative wedge size, on a
  number of labels that is not the number of wedge sizes, and on wedge sizes that are all
  zero (their normalisation is not a number). Nothing is drawn then.
\<close>

definition pie_error :: "int list \<Rightarrow> string list \<Rightarrow> exn option" where
  "pie_error sizes labels =
     (if list_ex (\<lambda>x. x < 0) sizes then
        Some (Exn ''ValueError'' ''Wedge sizes must be non negative values'')
      else if length sizes \<noteq> length labels then
        Some (Exn ''ValueError'' ''label must be of length x'')
      else if sizes \<noteq> [] \<and> sum_list sizes = 0 then
        Some (Exn ''ValueError'' ''cannot convert float NaN to integer'')
      else None)"

text \<open>Lines 166-177.\<close>

definition standings_try ::
  "'f session_data \<Rightarrow> 'f locals \<times> draw list \<Rightarrow> exn option \<times> 'f locals \<times> draw list" where
  "standings_try s st =
     (case st of (lv, ax) \<Rightarrow>
       (case laps_var lv of
          None \<Rightarrow> (Some (UnboundLocalError ''laps''), lv, ax)
        | Some L \<Rightarrow>
            (case pick_fastest s L of
               Inl e \<Rightarrow> (Some e, lv, ax)
             | Inr fastest \<Rightarrow>
                 (case position_column s fastest of
                    Inl e \<Rightarrow> (Some e, lv, ax)
                  | Inr positions \<Rightarrow>
                      (case drivers_var lv of
                         None \<Rightarrow> (Some (UnboundLocalError ''drivers''), lv, ax)
                       | Some ds \<Rightarrow>
                           (case pie_error positions ds of
                              Some e \<Rightarrow> (Some e, lv, ax)
                            | None \<Rightarrow>
                                (None, lv,
                                 ax @ [Pie positions ds, Set_title ''Driver Positions''])))))))"

definition standings_block :: "'f session_data \<Rightarrow> 'f locals \<times> draw list \<Rightarrow> 'f locals \<times> draw list" where
  "standings_block s st =
     (case st of (lv, ax) \<Rightarrow>
        try_except (standings_try s (lv, clear ax)) (na_fallback ''Driver Positions''))"

text \<open>
  The whole callback. \<open>self.ax1\<close> is read first, outside every \<open>try\<close>: on an object
  without that attribute the \<open>AttributeError\<close> leaves the method. \<open>plt.tight_layout()\<close>
  draws nothing.
\<close>

definition update_dashboard :: "'f dash \<Rightarrow> nat \<Rightarrow> exn + 'f dash" where
  "update_dashboard self frame =
     (case plots self of
        None \<Rightarrow> Inl (AttributeError ''ax1'')
      | Some p \<Rightarrow>
          (let s = session self;
               (lv1, a1) = positions_block s (\<lparr>laps_var = None, drivers_var = None\<rparr>, ax1 p);
               (lv2, a2) = tyre_block s (lv1, ax2 p);
               (lv3, a3) = lap_times_block s (lv2, ax3 p);
               (lv4, a4) = standings_block s (lv3, ax4 p)
           in Inr (self\<lparr>plots := Some (p\<lparr>ax1 := a1, ax2 := a2, ax3 := a3, ax4 := a4\<rparr>)\<rparr>)))"

subsection \<open>The constructor\<close>

text \<open>
  Lines 9-57. \<open>fastf1.get_session\<close> is called outside every \<open>try\<close>. A failing
  \<open>session.load()\<close> is caught, reported on standard output, and the constructor
  returns at once: the object then has the attributes \<open>year\<close>, \<open>event_name\<close> and
  \<open>session\<close> only. Creating the cache directory and choosing the style draw nothing.
\<close>

definition F1Dashboard :: "'f provider \<Rightarrow> int \<Rightarrow> string \<Rightarrow> bool \<Rightarrow> exn + 'f dash" where
  "F1Dashboard P yr ev dark_mode =
     (case get_session P yr ev of
        Inl e \<Rightarrow> Inl e
      | Inr s0 \<Rightarrow>
          (case load P False 0 of
             Inl e \<Rightarrow>
               Inr \<lparr>year = yr, event_name = ev, session = s0, loads = 1, plots = None,
                    animation = None, plt_current = [],
                    stdout = [''Error loading session: '' @ exn_msg e]\<rparr>
           | Inr s \<Rightarrow>
               (let track =
                      (case get_circuit s of
                         Inr outline \<Rightarrow> [Plot_track outline, Set_title ''Track Layout'']
                       | Inl e \<Rightarrow> [Text_centre ''N/A'', Set_title ''Track Layout''])
                in Inr \<lparr>year = yr, event_name = ev, session = s, loads = 1,
                        plots = Some \<lparr>facecolor = (if dark_mode then ''black'' else ''white''),
                                      suptitle = (yr, ev), ax1 = track,
                                      ax2 = [Set_title []], ax3 = [Set_title []],
                                      ax4 = [Set_title []]\<rparr>,
                        animation = Some 5000, plt_current = [], stdout = []\<rparr>)))"

text \<open>
  One expiry of the animation timer: the timer exists only as the attribute
  \<open>animation\<close>, and its callback is \<open>update_dashboard\<close>.
\<close>

definition fire :: "'f dash \<Rightarrow> nat \<Rightarrow> exn + 'f dash" where
  "fire self frame =
     (case animation self of None \<Rightarrow> Inr self | Some interval \<Rightarrow> update_dashboard self frame)"

subsection \<open>plot_driver_positions\<close>

text \<open>
  Lines 76-83. \<open>driver_laps.empty\<close> is the table having no row and
  \<open>driver_laps.iloc[-1]\<close> is its last row, read only when there is one.
\<close>

fun plot_loop ::
  "'f session_data \<Rightarrow> 'f list \<Rightarrow> string list \<Rightarrow> draw list \<Rightarrow> exn + draw list" where
  "plot_loop s L [] fig = Inr fig"
| "plot_loop s L (driver # rest) fig =
     (case pick_driver s L driver of
        Inl e \<Rightarrow> Inl e
      | Inr driver_laps \<Rightarrow>
          (if driver_laps \<noteq> [] then
             (case get_car_data s (last driver_laps) of
                Inl e \<Rightarrow> Inl e
              | Inr pos_data \<Rightarrow>
                  (if pos_data \<noteq> [] then plot_loop s L rest (fig @ [Scatter pos_data driver])
                   else plot_loop s L rest fig))
           else plot_loop s L rest fig))"

text \<open>Lines 59-89; \<open>plt.figure\<close> makes a new, empty current figure.\<close>

definition plot_driver_positions :: "'f dash \<Rightarrow> exn + 'f dash" where
  "plot_driver_positions self =
     (let s = session self in
      case session_laps s of
        Inl e \<Rightarrow> Inl e
      | Inr L \<Rightarrow>
          (case session_drivers s of
             Inl e \<Rightarrow> Inl e
           | Inr ds \<Rightarrow>
               (let (fig, out) =
                      (case get_circuit s of
                         Inr track_data \<Rightarrow> ([Plot_line track_data], stdout self)
                       | Inl e \<Rightarrow> ([], stdout self @ [''No track layout available.'']))
                in case plot_loop s L ds fig of
                     Inl e \<Rightarrow> Inl e
                   | Inr fig' \<Rightarrow>
                       Inr (self\<lparr>plt_current :=
                                   fig' @ [Set_xlabel ''X Coordinate'', Set_ylabel ''Y Coordinate'',
                                           Plt_title (event_name self) (year self), Legend, Show],
                                 stdout := out\<rparr>))))"

subsection \<open>fetch_live_positions\<close>

text \<open>Lines 98-104: every driver has a \<open>try\<close> of its own, whose handler prints.\<close>

definition live_driver :: "'f session_data \<Rightarrow> string \<Rightarrow> exn + xy" where
  "live_driver s driver =
     (case session_laps s of
        Inl e \<Rightarrow> Inl e
      | Inr L \<Rightarrow>
          (case pick_driver s L driver of
             Inl e \<Rightarrow> Inl e
           | Inr driver_laps \<Rightarrow>
               (case pick_fastest s driver_laps of
                  Inl e \<Rightarrow> Inl e
                | Inr driver_lap \<Rightarrow> get_pos_data s driver_lap)))"

fun live_loop ::
  "'f session_data \<Rightarrow> string list \<Rightarrow> draw list \<times> string list \<Rightarrow> draw list \<times> string list" where
  "live_loop s [] st = st"
| "live_loop s (driver # rest) (fig, out) =
     (case live_driver s driver of
        Inr pos_data \<Rightarrow> live_loop s rest (fig @ [Scatter pos_data driver], out)
      | Inl e \<Rightarrow> live_loop s rest (fig, out @ [''No data for '' @ driver]))"

text \<open>Lines 94-107, one pass of the loop body, after \<open>session.load(live=True)\<close> gave \<open>s\<close>.\<close>

definition live_iteration :: "'f session_data \<Rightarrow> string list \<Rightarrow> 'f dash \<Rightarrow> 'f dash" where
  "live_iteration s ds self =
     (let (fig, out) = live_loop s ds (clear (plt_current self), stdout self)
      in self\<lparr>session := s, loads := Suc (loads self),
               plt_current := fig @ [Legend, Pause 2], stdout := out\<rparr>)"

text \<open>
  Lines 92-107. The loop condition is the constant \<open>True\<close>, and the body has no
  \<open>break\<close> and no \<open>return\<close>; \<open>session.load\<close> (line 94) and \<open>session.drivers\<close> (line 98)
  are outside the inner \<open>try\<close>. \<open>None\<close> is the loop running for ever.
\<close>

partial_function (option) fetch_live_positions ::
  "'f provider \<Rightarrow> 'f dash \<Rightarrow> (exn + 'f dash) option" where
  "fetch_live_positions P self =
     (case load P True (loads self) of
        Inl e \<Rightarrow> Some (Inl e)
      | Inr s \<Rightarrow>
          (case session_drivers s of
             Inl e \<Rightarrow> Some (Inl e)
           | Inr ds \<Rightarrow> fetch_live_positions P (live_iteration s ds self)))"

subsection \<open>show, and calling a method by name\<close>

text \<open>Lines 181-182, the method \<open>show\<close>: \<open>plt.show()\<close>.\<close>

definition show_dashboard :: "'f dash \<Rightarrow> 'f dash" where
  "show_dashboard self = self\<lparr>plt_current := plt_current self @ [Show]\<rparr>"

text \<open>
  The class body defines \<open>__init__\<close>, \<open>plot_driver_positions\<close>, \<open>fetch_live_positions\<close>,
  \<open>update_dashboard\<close> and \<open>show\<close>, and nothing else; it has no base class. Calling any
  other name on an instance raises \<open>AttributeError\<close>.
\<close>

definition invoke :: "'f provider \<Rightarrow> string \<Rightarrow> 'f dash \<Rightarrow> (exn + 'f dash) option" where
  "invoke P name self =
     (if name = ''plot_driver_positions'' then Some (plot_driver_positions self)
      else if name = ''fetch_live_positions'' then fetch_live_positions P self
      else if name = ''update_dashboard'' then Some (update_dashboard self 0)
      else if name = ''show'' then Some (Inr (show_dashboard self))
      else Some (Inl (AttributeError name)))"

subsection \<open>Observations on a panel\<close>

text \<open>
  The placeholder the bare handlers draw, and the state of a panel: a centred text is
  drawn by the handlers only, so a panel is ready when its \<open>try\<close> body ran to its end.
\<close>

definition na_panel :: "string \<Rightarrow> draw list" where
  "na_panel title = [Text_centre ''N/A'', Set_title title]"

fun is_fallback :: "draw \<Rightarrow> bool" where
  "is_fallback (Text_centre t) = True"
| "is_fallback c = False"

definition ready :: "draw list \<Rightarrow> bool" where
  "ready ax = (ax \<noteq> [] \<and> list_all (\<lambda>c. \<not> is_fallback c) ax)"

fun pie_weights :: "draw list \<Rightarrow> int list option" where
  "pie_weights [] = None"
| "pie_weights (Pie w l # ax) = Some w"
| "pie_weights (c # ax) = pie_weights ax"

fun scattered :: "draw list \<Rightarrow> (string \<times> xy) list" where
  "scattered [] = []"
| "scattered (Scatter pos l # ax) = (l, pos) # scattered ax"
| "scattered (c # ax) = scattered ax"

text \<open>Sequencing of calls that may raise.\<close>

definition and_then :: "exn + 'a \<Rightarrow> ('a \<Rightarrow> exn + 'b) \<Rightarrow> exn + 'b" where
  "and_then r f = (case r of Inl e \<Rightarrow> Inl e | Inr x \<Rightarrow> f x)"

subsection \<open>Each view on its own\<close>

text \<open>
  Whether the library calls of one view succeed on a session: the calls of its \<open>try\<close>
  body, made on the laps table the session gives.
\<close>

definition driver_samples :: "'f session_data \<Rightarrow> 'f list \<Rightarrow> string \<Rightarrow> exn + xy" where
  "driver_samples s L driver =
     (case pick_driver s L driver of
        Inl e \<Rightarrow> Inl e
      | Inr driver_laps \<Rightarrow>
          (case pick_fastest s driver_laps of
             Inl e \<Rightarrow> Inl e
           | Inr driver_lap \<Rightarrow> get_pos_data s driver_lap))"

definition positions_ok :: "'f session_data \<Rightarrow> bool" where
  "positions_ok s =
     (case session_laps s of
        Inl e \<Rightarrow> False
      | Inr L \<Rightarrow>
          (case session_drivers s of
             Inl e \<Rightarrow> False
           | Inr ds \<Rightarrow>
               list_all (\<lambda>driver. case driver_samples s L driver of
                                    Inl e \<Rightarrow> False | Inr pos_data \<Rightarrow> True) ds))"

definition tyres_ok :: "'f session_data \<Rightarrow> bool" where
  "tyres_ok s =
     (case session_laps s of
        Inl e \<Rightarrow> False
      | Inr L \<Rightarrow> (case tire_strategies s L of Inl e \<Rightarrow> False | Inr ts \<Rightarrow> True))"

text \<open>The payload of the LapTimes view: the labels and the heights of the bars.\<close>

definition lap_times_payload :: "'f session_data \<Rightarrow> (string list \<times> rat list) option" where
  "lap_times_payload s =
     (case session_laps s of
        Inl e \<Rightarrow> None
      | Inr L \<Rightarrow>
          (case pick_fastest s L of
             Inl e \<Rightarrow> None
           | Inr current_lap_times \<Rightarrow>
               (case lap_time_seconds s current_lap_times of
                  Inl e \<Rightarrow> None
                | Inr lap_secs \<Rightarrow>
                    (case driver_column s current_lap_times of
                       Inl e \<Rightarrow> None
                     | Inr ds \<Rightarrow> Some (ds, lap_secs)))))"

definition lap_times_ok :: "'f session_data \<Rightarrow> bool" where
  "lap_times_ok s = (lap_times_payload s \<noteq> None)"

text \<open>The wedge sizes of the Standings view.\<close>

definition standings_positions :: "'f session_data \<Rightarrow> int list option" where
  "standings_positions s =
     (case session_laps s of
        Inl e \<Rightarrow> None
      | Inr L \<Rightarrow>
          (case pick_fastest s L of
             Inl e \<Rightarrow> None
           | Inr fastest \<Rightarrow>
               (case position_column s fastest of Inl e \<Rightarrow> None | Inr positions \<Rightarrow> Some positions)))"

definition standings_ok :: "'f session_data \<Rightarrow> bool" where
  "standings_ok s = (standings_positions s \<noteq> None)"

definition failing_views :: "'f session_data \<Rightarrow> nat" where
  "failing_views s =
     length (filter Not [positions_ok s, tyres_ok s, lap_times_ok s, standings_ok s])"

subsection \<open>Concrete sessions\<close>

text \<open>
  A lap as a row: the driver's number (what \<open>session.drivers\<close> lists), the three-letter
  code of the \<open>Driver\<close> column, the lap time in seconds, the rank and the position
  samples. \<open>table_session\<close> answers the library calls from a list of such rows:
  \<open>pick_driver\<close> keeps the rows of one driver, \<open>pick_fastest\<close> gives one lap, the first
  row of least lap time, and fails on a table without rows.
\<close>

record lap =
  driver_number :: string
  driver_code :: string
  lap_time :: rat
  position :: int
  samples :: xy

fun fastest_of :: "lap \<Rightarrow> lap list \<Rightarrow> lap" where
  "fastest_of best [] = best"
| "fastest_of best (l # ls) = fastest_of (if lap_time l < lap_time best then l else best) ls"

definition table_session :: "lap list \<Rightarrow> string list \<Rightarrow> lap session_data" where
  "table_session rows numbers =
     \<lparr>session_laps = Inr rows,
      session_drivers = Inr numbers,
      pick_driver = (\<lambda>L d. Inr (filter (\<lambda>l. driver_number l = d) L)),
      pick_fastest = (\<lambda>L. case L of [] \<Rightarrow> Inl (Exn ''ValueError'' ''no laps'')
                              | l # ls \<Rightarrow> Inr (fastest_of l ls)),
      get_pos_data = (\<lambda>l. Inr (samples l)),
      get_car_data = (\<lambda>l. Inr (samples l)),
      tire_strategies = (\<lambda>L. Inr []),
      lap_time_seconds = (\<lambda>l. Inr [lap_time l]),
      driver_column = (\<lambda>l. Inr [driver_code l]),
      position_column = (\<lambda>l. Inr [position l]),
      get_circuit = Inl (AttributeError ''get_circuit'')\<rparr>"

text \<open>A session that is not loaded: every read raises.\<close>

definition not_loaded :: "lap session_data" where
  "not_loaded =
     (let e = Exn ''DataNotLoadedError'' ''session not loaded'' in
      \<lparr>session_laps = Inl e,
       session_drivers = Inl e,
       pick_driver = (\<lambda>L d. Inl e),
       pick_fastest = (\<lambda>L. Inl e),
       get_pos_data = (\<lambda>l. Inl e),
       get_car_data = (\<lambda>l. Inl e),
       tire_strategies = (\<lambda>L. Inl e),
       lap_time_seconds = (\<lambda>l. Inl e),
       driver_column = (\<lambda>l. Inl e),
       position_column = (\<lambda>l. Inl e),
       get_circuit = Inl e\<rparr>)"

text \<open>
  Scenario A of the specification: the participants \<open>1\<close> and \<open>44\<close> with one lap each,
  of 92.5 s and 91.8 s. Here the reads on the result of \<open>laps.pick_fastest()\<close> give one
  entry per participant, and every participant has a tyre strategy.
\<close>

definition lap_1 :: lap where
  "lap_1 = \<lparr>driver_number = ''1'', driver_code = ''1'', lap_time = 185 / 2, position = 2,
            samples = [(10, 20), (11, 21)]\<rparr>"

definition lap_44 :: lap where
  "lap_44 = \<lparr>driver_number = ''44'', driver_code = ''44'', lap_time = 459 / 5, position = 1,
             samples = [(30, 40)]\<rparr>"

definition scenario_A :: "lap session_data" where
  "scenario_A =
     (table_session [lap_1, lap_44] [''1'', ''44''])
       \<lparr>tire_strategies := (\<lambda>L. Inr [(1, [''Soft'', ''Medium'']), (44, [''Medium'', ''Hard''])]),
        lap_time_seconds := (\<lambda>l. Inr [185 / 2, 459 / 5]),
        driver_column := (\<lambda>l. Inr [''1'', ''44'']),
        position_column := (\<lambda>l. Inr [2, 1])\<rparr>"

text \<open>Scenario A with the conversion of the lap times failing.\<close>

definition scenario_A_no_times :: "lap session_data" where
  "scenario_A_no_times =
     scenario_A\<lparr>lap_time_seconds := (\<lambda>l. Inl (AttributeError ''dt''))\<rparr>"

text \<open>
  Scenario A with two failures: \<open>session.drivers\<close> raises and the conversion of the lap
  times raises.
\<close>

definition scenario_A_two_failures :: "lap session_data" where
  "scenario_A_two_failures =
     scenario_A_no_times\<lparr>session_drivers := Inl (Exn ''DataNotLoadedError'' ''session not loaded'')\<rparr>"

text \<open>
  A session as the library gives it: the \<open>Driver\<close> column holds the three-letter code of
  a driver, \<open>session.drivers\<close> the numbers. Driver 1 has a fast first lap and a slower
  last lap; driver 44 has one lap; driver 16 has no lap.
\<close>

definition lap_1_first :: lap where
  "lap_1_first = \<lparr>driver_number = ''1'', driver_code = ''VER'', lap_time = 90, position = 1,
                  samples = [(0, 0)]\<rparr>"

definition lap_1_last :: lap where
  "lap_1_last = \<lparr>driver_number = ''1'', driver_code = ''VER'', lap_time = 95, position = 1,
                 samples = [(5, 5)]\<rparr>"

definition lap_44_only :: lap where
  "lap_44_only = \<lparr>driver_number = ''44'', driver_code = ''HAM'', lap_time = 93, position = 2,
                  samples = [(7, 7)]\<rparr>"

definition race_two :: "lap session_data" where
  "race_two = table_session [lap_1_first, lap_44_only, lap_1_last] [''1'', ''44'']"

definition race_three :: "lap session_data" where
  "race_three = table_session [lap_1_first, lap_44_only, lap_1_last] [''1'', ''16'', ''44'']"

text \<open>
  The same race with a tyre strategy for both drivers, and that session once more with
  the conversion of the lap time failing: there the LapTimes view is the one view that
  fails.
\<close>

definition race_two_tyres :: "lap session_data" where
  "race_two_tyres =
     race_two\<lparr>tire_strategies :=
                (\<lambda>L. Inr [(1, [''Soft'', ''Medium'']), (44, [''Medium'', ''Hard''])])\<rparr>"

definition race_two_no_times :: "lap session_data" where
  "race_two_no_times =
     race_two_tyres\<lparr>lap_time_seconds := (\<lambda>l. Inl (AttributeError ''dt''))\<rparr>"

text \<open>
  Providers: one whose every load gives the same data, one whose first load fails, and
  one whose data changes after the first load.
\<close>

definition steady_provider :: "lap session_data \<Rightarrow> lap provider" where
  "steady_provider s = \<lparr>get_session = (\<lambda>y ev. Inr not_loaded), load = (\<lambda>live n. Inr s)\<rparr>"

definition unreachable_provider :: "lap provider" where
  "unreachable_provider =
     \<lparr>get_session = (\<lambda>y ev. Inr not_loaded),
      load = (\<lambda>live n. Inl (Exn ''ConnectionError'' ''session unreachable''))\<rparr>"

definition changing_provider :: "lap provider" where
  "changing_provider =
     \<lparr>get_session = (\<lambda>y ev. Inr not_loaded),
      load = (\<lambda>live n. if n = 0 then Inr (table_session [lap_1_first] [''1''])
                        else Inr race_two)\<rparr>"

text \<open>Line 185: \<open>dashboard = F1Dashboard(2024, 'Japan', dark_mode=True)\<close>.\<close>

definition dashboard :: "lap provider \<Rightarrow> exn + lap dash" where
  "dashboard P = F1Dashboard P 2024 ''Japan'' True"

text \<open>
  The object line 185 builds when the load gives \<open>s\<close> and \<open>s\<close> has no circuit outline,
  and what its panels show after the first expiry of the timer.
\<close>

definition constructed :: "lap session_data \<Rightarrow> lap dash" where
  "constructed s =
     \<lparr>year = 2024, event_name = ''Japan'', session = s, loads = 1,
      plots = Some \<lparr>facecolor = ''black'', suptitle = (2024, ''Japan''),
                    ax1 = [Text_centre ''N/A'', Set_title ''Track Layout''],
                    ax2 = [Set_title []], ax3 = [Set_title []], ax4 = [Set_title []]\<rparr>,
      animation = Some 5000, plt_current = [], stdout = []\<rparr>"

definition shown :: "(plots \<Rightarrow> draw list) \<Rightarrow> exn + 'f dash \<Rightarrow> draw list" where
  "shown ax r =
     (case r of
        Inl e \<Rightarrow> []
      | Inr self \<Rightarrow> (case plots self of None \<Rightarrow> [] | Some p \<Rightarrow> ax p))"

definition first_tick :: "lap session_data \<Rightarrow> exn + lap dash" where
  "first_tick s = fire (constructed s) 0"

text \<open>A provider that answers three loads and is unreachable from the fourth on.\<close>

definition dropping_provider :: "lap provider" where
  "dropping_provider =
     \<lparr>get_session = (\<lambda>y ev. Inr not_loaded),
      load = (\<lambda>live n. if n < 3 then Inr race_two
                        else Inl (Exn ''ConnectionError'' ''session unreachable''))\<rparr>"

text \<open>
  The value of the local \<open>drivers\<close> when line 169 reads it: the \<open>Driver\<close> column bound
  at line 154 when the LapTimes block got that far, else \<open>session.drivers\<close> bound at
  line 115 when the Positions block got that far, else unbound.
\<close>

definition standings_labels :: "'f session_data \<Rightarrow> string list option" where
  "standings_labels s =
     (case lap_times_payload s of
        Some (ds, lap_secs) \<Rightarrow> Some ds
      | None \<Rightarrow>
          (case session_laps s of
             Inl e \<Rightarrow> None
           | Inr L \<Rightarrow> (case session_drivers s of Inl e \<Rightarrow> None | Inr ds \<Rightarrow> Some ds)))"

text \<open>
  Whether the Standings panel is drawn: its own reads succeed, \<open>drivers\<close> is bound, and
  \<open>pie\<close> accepts the ranks with the labels \<open>drivers\<close> holds.
\<close>

definition standings_drawn :: "'f session_data \<Rightarrow> bool" where
  "standings_drawn s =
     (case standings_positions s of
        None \<Rightarrow> False
      | Some ranks \<Rightarrow>
          (case standings_labels s of
             None \<Rightarrow> False
           | Some labels \<Rightarrow> pie_error ranks labels = None))"

text \<open>
  What the loop of \<open>plot_driver_positions\<close> scatters for one driver: the samples of the
  last lap, when the driver has a lap and that lap has samples.
\<close>

definition latest_samples :: "'f session_data \<Rightarrow> 'f list \<Rightarrow> string \<Rightarrow> (string \<times> xy) list" where
  "latest_samples s L driver =
     (case pick_driver s L driver of
        Inl e \<Rightarrow> []
      | Inr driver_laps \<Rightarrow>
          (if driver_laps = [] then []
           else (case get_car_data s (last driver_laps) of
                   Inl e \<Rightarrow> []
                 | Inr pos_data \<Rightarrow> (if pos_data = [] then [] else [(driver, pos_data)]))))"

text \<open>
  Two expiries of the timer after line 185, and what can be observed of a result: the
  number of loads made and the figure the \<open>plt.*\<close> calls drew on.
\<close>

definition two_ticks :: "lap provider \<Rightarrow> exn + lap dash" where
  "two_ticks P = and_then (and_then (dashboard P) (\<lambda>self. fire self 0)) (\<lambda>self. fire self 1)"

definition loads_made :: "exn + 'f dash \<Rightarrow> nat option" where
  "loads_made r = (case r of Inl e \<Rightarrow> None | Inr self \<Rightarrow> Some (loads self))"

definition plotted :: "exn + 'f dash \<Rightarrow> draw list" where
  "plotted r = (case r of Inl e \<Rightarrow> [] | Inr self \<Rightarrow> plt_current self)"

section \<open>Properties\<close>

subsection \<open>What one tick draws\<close>

lemma positions_loop_append:
  "positions_loop s L ds ax = (fst (positions_loop s L ds []), ax @ snd (positions_loop s L ds []))"
proof (induction ds arbitrary: ax)
  case Nil
  show ?case by simp
next
  case (Cons d ds)
  show ?case
    using Cons.IH [of "ax @ [Scatter pos d]" for pos] Cons.IH [of "[Scatter pos d]" for pos]
    by (simp split: sum.splits)
qed

lemma positions_loop_draws:
  "list_all (\<lambda>c. \<not> is_fallback c) (snd (positions_loop s L ds ax)) = list_all (\<lambda>c. \<not> is_fallback c) ax"
  by (induction ds arbitrary: ax) (simp_all split: sum.splits)

lemma positions_loop_ends:
  "(fst (positions_loop s L ds ax) = None) =
     list_all (\<lambda>driver. case driver_samples s L driver of
                          Inl e \<Rightarrow> False | Inr pos_data \<Rightarrow> True) ds"
  by (induction ds arbitrary: ax) (simp_all add: driver_samples_def split: sum.splits)

lemma positions_block_locals:
  "fst (positions_block s (lv, ax)) =
     (case session_laps s of
        Inl e \<Rightarrow> lv
      | Inr L \<Rightarrow> (case session_drivers s of
                    Inl e \<Rightarrow> lv\<lparr>laps_var := Some L\<rparr>
                  | Inr ds \<Rightarrow> lv\<lparr>laps_var := Some L, drivers_var := Some ds\<rparr>))"
  by (simp add: positions_block_def positions_try_def try_except_def Let_def
           split: sum.splits prod.splits option.splits)

lemma positions_block_panel:
  "snd (positions_block s (lv, ax)) =
     Set_title ''Live Driver Positions'' #
       (case session_laps s of
          Inl e \<Rightarrow> [Text_centre (''Error: '' @ exn_msg e)]
        | Inr L \<Rightarrow> (case session_drivers s of
               Inl e \<Rightarrow> [Text_centre (''Error: '' @ exn_msg e)]
             | Inr ds \<Rightarrow> (case positions_loop s L ds [] of
                    (None, ax') \<Rightarrow> ax' @ [Legend]
                  | (Some e, ax') \<Rightarrow> ax' @ [Text_centre (''Error: '' @ exn_msg e)])))"
  using positions_loop_append [of s _ _ "[Set_title ''Live Driver Positions'']"]
  by (simp add: positions_block_def positions_try_def try_except_def clear_def Let_def
           split: sum.splits prod.splits option.splits)

lemma tyre_block_locals:
  "fst (tyre_block s (lv, ax)) =
     (case session_laps s of Inl e \<Rightarrow> lv | Inr L \<Rightarrow> lv\<lparr>laps_var := Some L\<rparr>)"
  by (simp add: tyre_block_def tyre_try_def try_except_def na_fallback_def Let_def
           split: sum.splits)

lemma tyre_block_panel:
  "snd (tyre_block s (lv, ax)) =
     (case session_laps s of
        Inl e \<Rightarrow> na_panel ''Tyre Strategies''
      | Inr L \<Rightarrow> (case tire_strategies s L of
             Inl e \<Rightarrow> na_panel ''Tyre Strategies''
           | Inr ts \<Rightarrow> map (\<lambda>(driver, strategy). Strategy_text driver strategy) ts
                        @ [Set_title ''Tyre Strategies'']))"
  by (simp add: tyre_block_def tyre_try_def try_except_def na_fallback_def na_panel_def clear_def
                Let_def split: sum.splits)

lemma laps_at_lap_times:
  "laps_var (fst (tyre_block s (fst (positions_block s (\<lparr>laps_var = None, drivers_var = None\<rparr>, a)), b))) =
     (case session_laps s of Inl e \<Rightarrow> None | Inr L \<Rightarrow> Some L)"
  by (simp add: tyre_block_locals positions_block_locals split: sum.splits)

lemma drivers_at_lap_times:
  "drivers_var (fst (tyre_block s (fst (positions_block s (\<lparr>laps_var = None, drivers_var = None\<rparr>, a)), b))) =
     (case session_laps s of Inl e \<Rightarrow> None
      | Inr L \<Rightarrow> (case session_drivers s of Inl e \<Rightarrow> None | Inr ds \<Rightarrow> Some ds))"
  by (simp add: tyre_block_locals positions_block_locals split: sum.splits)

lemma lap_times_block_panel:
  "laps_var lv = (case session_laps s of Inl e \<Rightarrow> None | Inr L \<Rightarrow> Some L) \<Longrightarrow>
   snd (lap_times_block s (lv, ax)) =
     (case lap_times_payload s of
        None \<Rightarrow> na_panel ''Current Lap Times''
      | Some (ds, lap_secs) \<Rightarrow> [Bar ds lap_secs, Set_xticklabels ds,
            Set_ylabel ''Lap Time (seconds)'', Set_title ''Current Lap Times''])"
  by (simp add: lap_times_block_def lap_times_try_def try_except_def na_fallback_def na_panel_def
                clear_def lap_times_payload_def split: sum.splits)

lemma lap_times_block_locals:
  "laps_var lv = (case session_laps s of Inl e \<Rightarrow> None | Inr L \<Rightarrow> Some L) \<Longrightarrow>
   fst (lap_times_block s (lv, ax)) =
     (case lap_times_payload s of None \<Rightarrow> lv | Some (ds, lap_secs) \<Rightarrow> lv\<lparr>drivers_var := Some ds\<rparr>)"
  by (simp add: lap_times_block_def lap_times_try_def try_except_def na_fallback_def
                lap_times_payload_def split: sum.splits)

lemma standings_block_panel:
  "laps_var lv = (case session_laps s of Inl e \<Rightarrow> None | Inr L \<Rightarrow> Some L) \<Longrightarrow>
   snd (standings_block s (lv, ax)) =
     (case standings_positions s of
        None \<Rightarrow> na_panel ''Driver Positions''
      | Some ps \<Rightarrow> (case drivers_var lv of
             None \<Rightarrow> na_panel ''Driver Positions''
           | Some ds \<Rightarrow> (case pie_error ps ds of
                  Some e \<Rightarrow> na_panel ''Driver Positions''
                | None \<Rightarrow> [Pie ps ds, Set_title ''Driver Positions''])))"
  by (simp add: standings_block_def standings_try_def try_except_def na_fallback_def na_panel_def
                clear_def standings_positions_def split: sum.splits option.splits)

lemma update_dashboard_unfold:
  "plots self = Some p \<Longrightarrow>
   update_dashboard self fr =
     (let s = session self;
          b1 = positions_block s (\<lparr>laps_var = None, drivers_var = None\<rparr>, ax1 p);
          b2 = tyre_block s (fst b1, ax2 p);
          b3 = lap_times_block s (fst b2, ax3 p);
          b4 = standings_block s (fst b3, ax4 p)
      in Inr (self\<lparr>plots := Some (p\<lparr>ax1 := snd b1, ax2 := snd b2, ax3 := snd b3, ax4 := snd b4\<rparr>)\<rparr>))"
  by (simp add: update_dashboard_def Let_def case_prod_unfold)

lemma tick_ax1:
  assumes "plots self = Some p" "update_dashboard self fr = Inr self'" "plots self' = Some p'"
  shows "ax1 p' = Set_title ''Live Driver Positions'' #
                  (case session_laps (session self) of
                     Inl e \<Rightarrow> [Text_centre (''Error: '' @ exn_msg e)]
                   | Inr L \<Rightarrow> (case session_drivers (session self) of
                          Inl e \<Rightarrow> [Text_centre (''Error: '' @ exn_msg e)]
                        | Inr ds \<Rightarrow> (case positions_loop (session self) L ds [] of
                               (None, ax) \<Rightarrow> ax @ [Legend]
                             | (Some e, ax) \<Rightarrow> ax @ [Text_centre (''Error: '' @ exn_msg e)])))"
proof -
  have "ax1 p' = snd (positions_block (session self) (\<lparr>laps_var = None, drivers_var = None\<rparr>, ax1 p))"
    using assms by (auto simp add: update_dashboard_unfold Let_def)
  then show ?thesis by (simp only: positions_block_panel)
qed

lemma tick_ax2:
  assumes "plots self = Some p" "update_dashboard self fr = Inr self'" "plots self' = Some p'"
  shows "ax2 p' = (case session_laps (session self) of
                     Inl e \<Rightarrow> na_panel ''Tyre Strategies''
                   | Inr L \<Rightarrow> (case tire_strategies (session self) L of
                          Inl e \<Rightarrow> na_panel ''Tyre Strategies''
                        | Inr ts \<Rightarrow> map (\<lambda>(driver, strategy). Strategy_text driver strategy) ts @ [Set_title ''Tyre Strategies'']))"
proof -
  have "ax2 p' = snd (tyre_block (session self)
          (fst (positions_block (session self) (\<lparr>laps_var = None, drivers_var = None\<rparr>, ax1 p)), ax2 p))"
    using assms by (auto simp add: update_dashboard_unfold Let_def)
  then show ?thesis by (simp only: tyre_block_panel)
qed

lemma tick_ax3:
  assumes "plots self = Some p" "update_dashboard self fr = Inr self'" "plots self' = Some p'"
  shows "ax3 p' = (case lap_times_payload (session self) of
                     None \<Rightarrow> na_panel ''Current Lap Times''
                   | Some (ds, lap_secs) \<Rightarrow> [Bar ds lap_secs, Set_xticklabels ds,
                        Set_ylabel ''Lap Time (seconds)'', Set_title ''Current Lap Times''])"
proof -
  let ?s = "session self"
  let ?b2 = "tyre_block ?s (fst (positions_block ?s (\<lparr>laps_var = None, drivers_var = None\<rparr>, ax1 p)), ax2 p)"
  have "ax3 p' = snd (lap_times_block ?s (fst ?b2, ax3 p))"
    using assms by (auto simp add: update_dashboard_unfold Let_def)
  then show ?thesis
    by (simp only: lap_times_block_panel [OF laps_at_lap_times])
qed

lemma tick_ax4:
  assumes "plots self = Some p" "update_dashboard self fr = Inr self'" "plots self' = Some p'"
  shows "ax4 p' = (case standings_positions (session self) of
                     None \<Rightarrow> na_panel ''Driver Positions''
                   | Some ps \<Rightarrow> (case standings_labels (session self) of
                          None \<Rightarrow> na_panel ''Driver Positions''
                        | Some ds \<Rightarrow> (case pie_error ps ds of
                               Some e \<Rightarrow> na_panel ''Driver Positions''
                             | None \<Rightarrow> [Pie ps ds, Set_title ''Driver Positions''])))"
proof -
  let ?s = "session self"
  let ?b2 = "tyre_block ?s (fst (positions_block ?s (\<lparr>laps_var = None, drivers_var = None\<rparr>, ax1 p)), ax2 p)"
  let ?b3 = "lap_times_block ?s (fst ?b2, ax3 p)"
  have l2: "laps_var (fst ?b2) = (case session_laps ?s of Inl e \<Rightarrow> None | Inr L \<Rightarrow> Some L)"
    by (rule laps_at_lap_times)
  have b3: "fst ?b3 = (case lap_times_payload ?s of None \<Rightarrow> fst ?b2
                       | Some (ds, lap_secs) \<Rightarrow> (fst ?b2)\<lparr>drivers_var := Some ds\<rparr>)"
    by (rule lap_times_block_locals [OF l2])
  have l3: "laps_var (fst ?b3) = (case session_laps ?s of Inl e \<Rightarrow> None | Inr L \<Rightarrow> Some L)"
    unfolding b3 using l2 by (simp split: option.splits)
  have d3: "drivers_var (fst ?b3) = standings_labels ?s"
    unfolding b3 standings_labels_def
    by (simp add: drivers_at_lap_times split: option.splits)
  have "ax4 p' = snd (standings_block ?s (fst ?b3, ax4 p))"
    using assms by (auto simp add: update_dashboard_unfold Let_def)
  then show ?thesis
    by (simp only: standings_block_panel [OF l3] d3)
qed

lemma tick_returns:
  assumes "plots self = Some p"
  shows "\<exists>p'. update_dashboard self fr = Inr (self\<lparr>plots := Some p'\<rparr>)"
  unfolding update_dashboard_unfold [OF assms] Let_def by blast

lemma constructed_fields:
  "plots (constructed s) \<noteq> None" "animation (constructed s) = Some 5000" "session (constructed s) = s"
  "loads (constructed s) = 1"
  by (simp_all add: constructed_def)

lemma blocks_clear:
  "positions_block s (lv, ax) = positions_block s (lv, [])"
  "tyre_block s (lv, ax) = tyre_block s (lv, [])"
  "lap_times_block s (lv, ax) = lap_times_block s (lv, [])"
  "standings_block s (lv, ax) = standings_block s (lv, [])"
  by (simp_all add: positions_block_def tyre_block_def lap_times_block_def standings_block_def clear_def)

lemma update_dashboard_cleared:
  assumes "plots self = Some p"
  shows "update_dashboard self fr =
     (let s = session self;
          b1 = positions_block s (\<lparr>laps_var = None, drivers_var = None\<rparr>, []);
          b2 = tyre_block s (fst b1, []);
          b3 = lap_times_block s (fst b2, []);
          b4 = standings_block s (fst b3, [])
      in Inr (self\<lparr>plots := Some (p\<lparr>ax1 := snd b1, ax2 := snd b2, ax3 := snd b3, ax4 := snd b4\<rparr>)\<rparr>))"
  unfolding update_dashboard_unfold [OF assms] Let_def
  by (simp only: blocks_clear [of _ _ "ax1 p"] blocks_clear [of _ _ "ax2 p"]
                 blocks_clear [of _ _ "ax3 p"] blocks_clear [of _ _ "ax4 p"])

lemma tick_overwrites:
  assumes "plots self = Some p"
  shows "update_dashboard (self\<lparr>plots := Some (p\<lparr>ax1 := a, ax2 := b, ax3 := c, ax4 := d\<rparr>)\<rparr>) fr' =
         update_dashboard self fr"
proof -
  have q: "plots (self\<lparr>plots := Some (p\<lparr>ax1 := a, ax2 := b, ax3 := c, ax4 := d\<rparr>)\<rparr>) =
          Some (p\<lparr>ax1 := a, ax2 := b, ax3 := c, ax4 := d\<rparr>)"
    by simp
  show ?thesis
    unfolding update_dashboard_cleared [OF assms] update_dashboard_cleared [OF q] Let_def
    by simp
qed

lemma tick_keeps_session:
  assumes "update_dashboard self fr = Inr self'"
  shows "loads self' = loads self \<and> session self' = session self \<and> animation self' = animation self"
proof (cases "plots self")
  case None
  with assms show ?thesis by (simp add: update_dashboard_def)
next
  case (Some p)
  from tick_returns [OF Some, of fr] assms show ?thesis by auto
qed

lemma scattered_append: "scattered (a @ b) = scattered a @ scattered b"
  by (induction a rule: scattered.induct) simp_all

lemma plot_loop_latest:
  "plot_loop s L ds fig = Inr fig' \<Longrightarrow>
   scattered fig' = scattered fig @ concat (map (latest_samples s L) ds)"
proof (induction ds arbitrary: fig)
  case Nil
  then show ?case by simp
next
  case (Cons d ds)
  then show ?case
    by (auto simp add: latest_samples_def scattered_append split: sum.splits if_splits)
qed

lemma plot_driver_positions_latest:
  assumes "plot_driver_positions self = Inr self'"
  shows "\<exists>L ds. session_laps (session self) = Inr L \<and> session_drivers (session self) = Inr ds \<and>
           scattered (plt_current self') = concat (map (latest_samples (session self) L) ds)"
  using assms
  by (auto simp add: plot_driver_positions_def Let_def scattered_append
           split: sum.splits prod.splits dest!: plot_loop_latest)

lemma plot_driver_positions_keeps:
  assumes "plot_driver_positions self = Inr self'"
  shows "animation self' = animation self \<and> plots self' = plots self \<and>
         session self' = session self \<and> loads self' = loads self"
  using assms
  by (auto simp add: plot_driver_positions_def Let_def split: sum.splits prod.splits)

lemma loads_live_iteration: "loads (live_iteration s ds self) = Suc (loads self)"
  by (simp add: live_iteration_def split: prod.splits)

lemma fetch_live_never_returns:
  assumes "fetch_live_positions P self = Some r"
  shows "\<exists>e. r = Inl e"
proof -
  let ?Q = "\<lambda>(st :: 'a provider \<times> 'a dash) (r :: exn + 'a dash). \<exists>e. r = Inl e"
  have "?Q (P, self) r"
  proof (rule fetch_live_positions.raw_induct [where Pa = ?Q, OF _ assms])
    fix f and P :: "'a provider" and self :: "'a dash" and r
    assume IH: "\<And>P self y. f P self = Some y \<Longrightarrow> ?Q (P, self) y"
    assume step: "(case load P True (loads self) of
                     Inl e \<Rightarrow> Some (Inl e)
                   | Inr s \<Rightarrow> (case session_drivers s of
                                Inl e \<Rightarrow> Some (Inl e)
                              | Inr ds \<Rightarrow> f P (live_iteration s ds self))) = Some r"
    show "?Q (P, self) r"
      using step IH by (auto split: sum.splits)
  qed
  then show ?thesis by simp
qed

subsection \<open>The claims\<close>

lemma ready_ax1:
  assumes "plots self = Some p" "update_dashboard self fr = Inr self'" "plots self' = Some p'"
  shows "ready (ax1 p') = positions_ok (session self)"
proof (cases "session_laps (session self)")
  case (Inl e)
  then show ?thesis
    unfolding tick_ax1 [OF assms] ready_def positions_ok_def by simp
next
  case L: (Inr L)
  show ?thesis
  proof (cases "session_drivers (session self)")
    case (Inl e)
    with L show ?thesis
      unfolding tick_ax1 [OF assms] ready_def positions_ok_def by simp
  next
    case ds: (Inr ds)
    obtain r ax where loop: "positions_loop (session self) L ds [] = (r, ax)"
      by (cases "positions_loop (session self) L ds []") simp
    have draws: "list_all (\<lambda>c. \<not> is_fallback c) ax"
      using positions_loop_draws [of "session self" L ds "[]"] loop by simp
    have ends: "(r = None) =
        list_all (\<lambda>driver. case driver_samples (session self) L driver of
                             Inl e \<Rightarrow> False | Inr pos_data \<Rightarrow> True) ds"
      using positions_loop_ends [of "session self" L ds "[]"] loop by simp
    show ?thesis
      unfolding tick_ax1 [OF assms] ready_def positions_ok_def
      using L ds loop draws ends by (cases r) simp_all
  qed
qed

lemma ready_ax2:
  assumes "plots self = Some p" "update_dashboard self fr = Inr self'" "plots self' = Some p'"
  shows "ready (ax2 p') = tyres_ok (session self)"
  unfolding tick_ax2 [OF assms] ready_def tyres_ok_def na_panel_def
  by (auto simp add: list_all_iff split: sum.splits)

lemma ready_ax3:
  assumes "plots self = Some p" "update_dashboard self fr = Inr self'" "plots self' = Some p'"
  shows "ready (ax3 p') = lap_times_ok (session self)"
  unfolding tick_ax3 [OF assms] ready_def lap_times_ok_def na_panel_def
  by (auto split: option.splits)

lemma ready_ax4:
  assumes "plots self = Some p" "update_dashboard self fr = Inr self'" "plots self' = Some p'"
  shows "ready (ax4 p') = standings_drawn (session self)"
  unfolding tick_ax4 [OF assms] ready_def standings_drawn_def na_panel_def
  by (auto split: option.splits)

text \<open>
  Each of the first three panels is ready exactly when the library calls of its own view
  succeed, whatever the other views do. The Standings panel is not: the four blocks share
  the locals \<open>laps\<close> and \<open>drivers\<close>, and the labels of the pie are whatever \<open>drivers\<close>
  holds at line 169, the \<open>Driver\<close> column when the LapTimes block bound it and
  \<open>session.drivers\<close> otherwise.
\<close>

lemma panels_after_tick:
  assumes "plots self = Some p"
  shows "\<exists>self' p'. update_dashboard self fr = Inr self' \<and> plots self' = Some p' \<and>
           ready (ax1 p') = positions_ok (session self) \<and>
           ready (ax2 p') = tyres_ok (session self) \<and>
           ready (ax3 p') = lap_times_ok (session self) \<and>
           ready (ax4 p') = standings_drawn (session self)"
proof -
  obtain q where r: "update_dashboard self fr = Inr (self\<lparr>plots := Some q\<rparr>)"
    using tick_returns [OF assms(1)] by blast
  have q: "plots (self\<lparr>plots := Some q\<rparr>) = Some q" by simp
  show ?thesis
    using r q ready_ax1 [OF assms(1) r q] ready_ax2 [OF assms(1) r q] ready_ax3 [OF assms(1) r q]
      ready_ax4 [OF assms(1) r q]
    by blast
qed

lemma standings_labels_follow_lap_times:
  assumes "plots self = Some p" "update_dashboard self fr = Inr self'" "plots self' = Some p'"
      and "standings_positions (session self) = Some ranks"
      and "standings_labels (session self) = Some labels"
      and "pie_error ranks labels = None"
  shows "ax4 p' = [Pie ranks labels, Set_title ''Driver Positions'']"
  unfolding tick_ax4 [OF assms(1-3)] using assms(4-6) by simp

lemma two_failures_reach_standings:
  "failing_views scenario_A_two_failures = 2 \<and> standings_ok scenario_A_two_failures \<and>
   shown ax4 (first_tick scenario_A_two_failures) = na_panel ''Driver Positions''"
  by code_simp

text \<open>
  C1. One failing view can take another panel down. On a session where the conversion of
  the lap time is the one call that fails, the Positions and the TireStrategy panel are
  drawn and the LapTimes panel shows \<open>N/A\<close>, and so does the Standings panel, whose own
  reads succeed: line 154 did not rebind \<open>drivers\<close>, so line 169 gives \<open>pie\<close> the two
  numbers of \<open>session.drivers\<close> as labels of one wedge, which \<open>pie\<close> refuses. With the
  conversion succeeding on the same session the Standings panel is drawn.
\<close>

theorem one_failing_view_reaches_standings:
  "failing_views race_two_no_times = 1 \<and> \<not> lap_times_ok race_two_no_times \<and>
   standings_positions race_two_no_times = Some [1] \<and>
   shown ax1 (first_tick race_two_no_times) =
     [Set_title ''Live Driver Positions'', Scatter [(0, 0)] ''1'', Scatter [(7, 7)] ''44'', Legend] \<and>
   shown ax2 (first_tick race_two_no_times) =
     [Strategy_text 1 [''Soft'', ''Medium''], Strategy_text 44 [''Medium'', ''Hard''],
      Set_title ''Tyre Strategies''] \<and>
   shown ax3 (first_tick race_two_no_times) = na_panel ''Current Lap Times'' \<and>
   shown ax4 (first_tick race_two_no_times) = na_panel ''Driver Positions'' \<and>
   failing_views race_two_tyres = 0 \<and>
   shown ax4 (first_tick race_two_tyres) = [Pie [1] [''VER''], Set_title ''Driver Positions'']"
  by code_simp

text \<open>
  C2. Whenever the Standings panel is ready after a tick, the wedge sizes of its pie
  are the values of the \<open>Position\<close> column of \<open>laps.pick_fastest()\<close>: the ranks
  themselves.
\<close>

theorem standings_weights_are_ranks:
  assumes "plots self = Some p" "update_dashboard self fr = Inr self'" "plots self' = Some p'"
      and "ready (ax4 p')"
  shows "\<exists>ranks. standings_positions (session self) = Some ranks \<and>
                 pie_weights (ax4 p') = Some ranks"
  using assms(4) unfolding tick_ax4 [OF assms(1-3)] ready_def na_panel_def
  by (auto split: option.splits)

lemma first_tick_scenario_A:
  "update_dashboard (constructed scenario_A) 0 = first_tick scenario_A"
  by (simp add: first_tick_def fire_def constructed_def)

theorem standings_weights_are_ranks_witness:
  "ready (shown ax4 (first_tick scenario_A)) \<and>
   standings_positions scenario_A = Some [2, 1] \<and>
   pie_weights (shown ax4 (first_tick scenario_A)) = Some [2, 1]"
proof -
  obtain p where p: "plots (constructed scenario_A) = Some p"
    by (simp add: constructed_def)
  obtain q where r: "update_dashboard (constructed scenario_A) 0 = Inr (constructed scenario_A\<lparr>plots := Some q\<rparr>)"
    using tick_returns [OF p] by blast
  have q: "plots (constructed scenario_A\<lparr>plots := Some q\<rparr>) = Some q" by simp
  have sh: "shown ax4 (first_tick scenario_A) = ax4 q"
    using r by (simp add: first_tick_scenario_A [symmetric] shown_def)
  have rd: "ready (shown ax4 (first_tick scenario_A))" by code_simp
  have pos: "standings_positions scenario_A = Some [2, 1]" by code_simp
  have s: "session (constructed scenario_A) = scenario_A" by (simp add: constructed_def)
  show ?thesis
    using standings_weights_are_ranks [OF p r q] rd pos
    by (simp add: sh s)
qed

theorem standings_equal_weight_counterexample:
  "ready (shown ax4 (first_tick scenario_A)) \<and>
   pie_weights (shown ax4 (first_tick scenario_A)) = Some [2, 1] \<and>
   pie_weights (shown ax4 (first_tick scenario_A)) \<noteq> Some [1, 1]"
  by code_simp

text \<open>
  C3. When \<open>self.session.laps\<close> raises, a tick returns: the Positions panel shows its
  title and the text \<open>Error:\<close> followed by the message of the exception, the three other
  panels show \<open>N/A\<close> under their titles, and the timer is as it was, so that its next
  expiry runs the callback again.
\<close>

theorem snapshot_failure_fallback:
  assumes "plots self = Some p" and "animation self = Some interval"
      and "session_laps (session self) = Inl e"
  shows "\<exists>self' p'. update_dashboard self fr = Inr self' \<and> plots self' = Some p' \<and>
           ax1 p' = [Set_title ''Live Driver Positions'', Text_centre (''Error: '' @ exn_msg e)] \<and>
           ax2 p' = na_panel ''Tyre Strategies'' \<and>
           ax3 p' = na_panel ''Current Lap Times'' \<and>
           ax4 p' = na_panel ''Driver Positions'' \<and>
           animation self' = Some interval \<and>
           fire self' fr' = update_dashboard self' fr'"
proof -
  obtain q where r: "update_dashboard self fr = Inr (self\<lparr>plots := Some q\<rparr>)"
    using tick_returns [OF assms(1)] by blast
  have q: "plots (self\<lparr>plots := Some q\<rparr>) = Some q" by simp
  have "lap_times_payload (session self) = None" "standings_positions (session self) = None"
    using assms(3) by (simp_all add: lap_times_payload_def standings_positions_def)
  then have "ax3 q = na_panel ''Current Lap Times''" "ax4 q = na_panel ''Driver Positions''"
    using tick_ax3 [OF assms(1) r q] tick_ax4 [OF assms(1) r q] by simp_all
  moreover have "ax1 q = [Set_title ''Live Driver Positions'', Text_centre (''Error: '' @ exn_msg e)]"
    using tick_ax1 [OF assms(1) r q] assms(3) by simp
  moreover have "ax2 q = na_panel ''Tyre Strategies''"
    using tick_ax2 [OF assms(1) r q] assms(3) by simp
  moreover have "fire (self\<lparr>plots := Some q\<rparr>) fr' = update_dashboard (self\<lparr>plots := Some q\<rparr>) fr'"
    using assms(2) by (simp add: fire_def)
  ultimately show ?thesis
    using r q assms(2) by simp
qed

theorem snapshot_failure_fallback_witness:
  "session_laps not_loaded = Inl (Exn ''DataNotLoadedError'' ''session not loaded'') \<and>
   (\<exists>self' p'. update_dashboard (constructed not_loaded) 0 = Inr self' \<and> plots self' = Some p' \<and>
      ax1 p' = [Set_title ''Live Driver Positions'', Text_centre ''Error: session not loaded''] \<and>
      ax2 p' = na_panel ''Tyre Strategies'' \<and> ax3 p' = na_panel ''Current Lap Times'' \<and>
      ax4 p' = na_panel ''Driver Positions'' \<and> animation self' = Some 5000)"
proof -
  obtain p where p: "plots (constructed not_loaded) = Some p"
    using constructed_fields(1) by blast
  have l: "session_laps (session (constructed not_loaded)) = Inl (Exn ''DataNotLoadedError'' ''session not loaded'')"
    by (simp add: constructed_fields not_loaded_def Let_def)
  show ?thesis
    using snapshot_failure_fallback [OF p constructed_fields(2) l, of 0 1] l
    by (auto simp add: constructed_fields)
qed

theorem snapshot_failure_all_na_counterexample:
  "shown ax1 (first_tick not_loaded) =
     [Set_title ''Live Driver Positions'', Text_centre ''Error: session not loaded''] \<and>
   shown ax1 (first_tick not_loaded) \<noteq> na_panel ''Live Driver Positions'' \<and>
   Text_centre ''N/A'' \<notin> set (shown ax1 (first_tick not_loaded))"
  by code_simp

text \<open>
  C4. After a tick the LapTimes panel is the bar chart of the \<open>Driver\<close> column against
  the seconds of the \<open>LapTime\<close> column of the one result of \<open>laps.pick_fastest()\<close> when
  the laps table can be read and these three calls succeed, and \<open>N/A\<close> under its title
  otherwise. The block reads neither \<open>session.drivers\<close> nor any lap but that result.
\<close>

theorem lap_times_view:
  assumes "plots self = Some p"
  shows "\<exists>self' p'. update_dashboard self fr = Inr self' \<and> plots self' = Some p' \<and>
           ax3 p' = (case lap_times_payload (session self) of
                       None \<Rightarrow> na_panel ''Current Lap Times''
                     | Some (labels, seconds) \<Rightarrow>
                         [Bar labels seconds, Set_xticklabels labels,
                          Set_ylabel ''Lap Time (seconds)'', Set_title ''Current Lap Times''])"
proof -
  obtain q where r: "update_dashboard self fr = Inr (self\<lparr>plots := Some q\<rparr>)"
    using tick_returns [OF assms(1)] by blast
  have q: "plots (self\<lparr>plots := Some q\<rparr>) = Some q" by simp
  show ?thesis
    using r q tick_ax3 [OF assms(1) r q] by blast
qed

theorem lap_times_view_witness:
  "plots (constructed race_two) \<noteq> None \<and> lap_times_payload race_two = Some ([''VER''], [90]) \<and>
   (\<exists>self' p'. update_dashboard (constructed race_two) 0 = Inr self' \<and> plots self' = Some p' \<and>
      ax3 p' = [Bar [''VER''] [90], Set_xticklabels [''VER''],
                Set_ylabel ''Lap Time (seconds)'', Set_title ''Current Lap Times''])"
proof -
  obtain p where p: "plots (constructed race_two) = Some p"
    using constructed_fields(1) by blast
  have pl: "lap_times_payload race_two = Some ([''VER''], [90])" by code_simp
  show ?thesis
    using lap_times_view [OF p, of 0] p pl
    by (simp add: constructed_fields)
qed

theorem lap_times_subset_counterexample:
  "shown ax3 (first_tick race_two) =
     [Bar [''VER''] [90], Set_xticklabels [''VER''],
      Set_ylabel ''Lap Time (seconds)'', Set_title ''Current Lap Times''] \<and>
   session_drivers race_two = Inr [''1'', ''44''] \<and>
   \<not> set [''VER''] \<subseteq> set [''1'', ''44'']"
  by code_simp

text \<open>
  C9. A tick that follows a tick on the same session leaves the dashboard as the first
  tick left it, and it does so whatever the four panels held before: every axis is
  cleared before it is drawn, so nothing drawn earlier remains.
\<close>

theorem render_idempotent:
  assumes "update_dashboard self fr = Inr self'" and "plots self' = Some p'"
  shows "update_dashboard self' fr' = Inr self' \<and>
         update_dashboard (self'\<lparr>plots := Some (p'\<lparr>ax1 := a, ax2 := b, ax3 := c, ax4 := d\<rparr>)\<rparr>) fr' = Inr self'"
proof -
  obtain p where p: "plots self = Some p"
    using assms(1) by (cases "plots self") (simp_all add: update_dashboard_def)
  have r: "self' = self\<lparr>plots := Some p'\<rparr>"
    using tick_returns [OF p, of fr] assms by auto
  have shape: "p' = p\<lparr>ax1 := ax1 p', ax2 := ax2 p', ax3 := ax3 p', ax4 := ax4 p'\<rparr>"
    using assms p by (auto simp add: update_dashboard_unfold Let_def)
  have again: "update_dashboard (self\<lparr>plots := Some (p\<lparr>ax1 := x, ax2 := y, ax3 := z, ax4 := w\<rparr>)\<rparr>) fr' = Inr self'"
    for x y z w
    using tick_overwrites [OF p, where a = x and b = y and c = z and d = w and fr' = fr' and fr = fr]
      assms(1) by simp
  have one: "update_dashboard self' fr' = Inr self'"
    using again [where x = "ax1 p'" and y = "ax2 p'" and z = "ax3 p'" and w = "ax4 p'"] r shape by simp
  have two: "update_dashboard (self'\<lparr>plots := Some (p'\<lparr>ax1 := a, ax2 := b, ax3 := c, ax4 := d\<rparr>)\<rparr>) fr' = Inr self'"
  proof -
    have "p'\<lparr>ax1 := a, ax2 := b, ax3 := c, ax4 := d\<rparr> = p\<lparr>ax1 := a, ax2 := b, ax3 := c, ax4 := d\<rparr>"
      by (subst shape) simp
    then show ?thesis using again [where x = a and y = b and z = c and w = d] r by simp
  qed
  from one two show ?thesis by blast
qed

theorem render_idempotent_witness:
  "(\<exists>self' p'. update_dashboard (constructed scenario_A) 0 = Inr self' \<and> plots self' = Some p' \<and>
      ready (ax1 p') \<and> ready (ax2 p') \<and> ready (ax3 p') \<and> ready (ax4 p') \<and>
      update_dashboard self' 1 = Inr self' \<and>
      update_dashboard (self'\<lparr>plots := Some (p'\<lparr>ax1 := [Legend], ax2 := [], ax3 := [], ax4 := []\<rparr>)\<rparr>) 1 = Inr self')"
proof -
  obtain p where p: "plots (constructed scenario_A) = Some p"
    using constructed_fields(1) by blast
  obtain q where r: "update_dashboard (constructed scenario_A) 0 = Inr (constructed scenario_A\<lparr>plots := Some q\<rparr>)"
    using tick_returns [OF p] by blast
  have q: "plots (constructed scenario_A\<lparr>plots := Some q\<rparr>) = Some q" by simp
  have ok: "positions_ok scenario_A" "tyres_ok scenario_A" "lap_times_ok scenario_A"
    "standings_drawn scenario_A"
    by code_simp+
  have "ready (ax1 q)" "ready (ax2 q)" "ready (ax3 q)" "ready (ax4 q)"
    using ready_ax1 [OF p r q] ready_ax2 [OF p r q] ready_ax3 [OF p r q] ready_ax4 [OF p r q] ok
    by (simp_all add: constructed_fields)
  then show ?thesis
    using render_idempotent [OF r q, where fr' = 1 and a = "[Legend]" and b = "[]" and c = "[]" and d = "[]"]
      r q by blast
qed

text \<open>
  C10. When \<open>session.load()\<close> raises in the constructor, the constructor reports the
  error and returns an object without figure, panels and timer: an expiry of the timer
  does nothing on it, and \<open>update_dashboard\<close> raises \<open>AttributeError\<close>.
\<close>

theorem failed_load_leaves_partial_object:
  assumes "get_session P yr ev = Inr s0" and "load P False 0 = Inl e"
  shows "\<exists>self. F1Dashboard P yr ev dark_mode = Inr self \<and>
           plots self = None \<and> animation self = None \<and>
           stdout self = [''Error loading session: '' @ exn_msg e] \<and>
           fire self fr = Inr self \<and>
           update_dashboard self fr = Inl (AttributeError ''ax1'')"
  using assms by (simp add: F1Dashboard_def fire_def update_dashboard_def)

theorem failed_load_leaves_partial_object_witness:
  "get_session unreachable_provider 2024 ''Japan'' = Inr not_loaded \<and>
   load unreachable_provider False 0 = Inl (Exn ''ConnectionError'' ''session unreachable'') \<and>
   (\<exists>self. dashboard unreachable_provider = Inr self \<and> plots self = None \<and> animation self = None \<and>
      stdout self = [''Error loading session: session unreachable''] \<and>
      fire self 0 = Inr self \<and> update_dashboard self 0 = Inl (AttributeError ''ax1''))"
proof -
  have g: "get_session unreachable_provider 2024 ''Japan'' = Inr not_loaded"
    by (simp add: unreachable_provider_def)
  have l: "load unreachable_provider False 0 = Inl (Exn ''ConnectionError'' ''session unreachable'')"
    by (simp add: unreachable_provider_def)
  show ?thesis
    using failed_load_leaves_partial_object [OF g l, of True 0] g l
    by (simp add: dashboard_def)
qed

text \<open>
  C5. A tick makes no call of \<open>session.load\<close>: with a provider whose data changes after
  the load of the constructor, one load has been made after the constructor and still one
  after two ticks, and the second tick draws the data of the constructor's load, not what
  a tick on the provider's present data would draw.
\<close>

theorem ticks_reuse_the_first_load:
  "loads_made (dashboard changing_provider) = Some 1 \<and>
   loads_made (two_ticks changing_provider) = Some 1 \<and>
   scattered (shown ax1 (two_ticks changing_provider)) = [(''1'', [(0, 0)])] \<and>
   load changing_provider True 1 = Inr race_two \<and>
   scattered (shown ax1 (first_tick race_two)) = [(''1'', [(0, 0)]), (''44'', [(7, 7)])]"
proof -
  have "loads_made (dashboard changing_provider) = Some 1" by code_simp
  moreover have "loads_made (two_ticks changing_provider) = Some 1" by code_simp
  moreover have "scattered (shown ax1 (two_ticks changing_provider)) = [(''1'', [(0, 0)])]"
    by code_simp
  moreover have "load changing_provider True 1 = Inr race_two"
    by (simp add: changing_provider_def)
  moreover have "scattered (shown ax1 (first_tick race_two)) = [(''1'', [(0, 0)]), (''44'', [(7, 7)])]"
    by code_simp
  ultimately show ?thesis by blast
qed

text \<open>
  C6. The Positions block of \<open>update_dashboard\<close> draws the fastest lap of a driver, not
  the latest, and a driver without laps ends the whole block in the error text; on the
  same sessions \<open>plot_driver_positions\<close> draws the latest lap and leaves out the driver
  without laps.
\<close>

theorem positions_panel_draws_fastest_lap:
  "scattered (shown ax1 (first_tick race_two)) = [(''1'', [(0, 0)]), (''44'', [(7, 7)])] \<and>
   scattered (plotted (plot_driver_positions (constructed race_two))) =
     [(''1'', [(5, 5)]), (''44'', [(7, 7)])] \<and>
   shown ax1 (first_tick race_three) =
     [Set_title ''Live Driver Positions'', Scatter [(0, 0)] ''1'', Text_centre ''Error: no laps''] \<and>
   scattered (plotted (plot_driver_positions (constructed race_three))) =
     [(''1'', [(5, 5)]), (''44'', [(7, 7)])]"
  by code_simp

text \<open>
  C7. The class has no \<open>stop\<close>: calling it raises \<open>AttributeError\<close>. No method of the
  class that returns changes the timer: after any of them returned, an expiry of the timer
  runs \<open>update_dashboard\<close> as before.
\<close>

theorem no_method_cancels_timer:
  assumes "invoke P name self = Some (Inr self')" and "animation self = Some interval"
  shows "animation self' = Some interval \<and> fire self' fr = update_dashboard self' fr"
proof -
  have "animation self' = animation self"
  proof -
    have "plot_driver_positions self = Inr self' \<or>
          fetch_live_positions P self = Some (Inr self') \<or>
          update_dashboard self 0 = Inr self' \<or> self' = show_dashboard self"
      using assms(1) unfolding invoke_def
      by (metis option.inject sum.inject sum.distinct(1))
    then consider (plot) "plot_driver_positions self = Inr self'"
      | (live) "fetch_live_positions P self = Some (Inr self')"
      | (tick) "update_dashboard self 0 = Inr self'"
      | (shw) "self' = show_dashboard self"
      by blast
    then show ?thesis
    proof cases
      case plot
      then show ?thesis using plot_driver_positions_keeps by blast
    next
      case live
      then show ?thesis using fetch_live_never_returns by blast
    next
      case tick
      then show ?thesis using tick_keeps_session by blast
    next
      case shw
      then show ?thesis by (simp add: show_dashboard_def)
    qed
  qed
  with assms(2) show ?thesis by (simp add: fire_def)
qed

theorem no_method_cancels_timer_witness:
  "invoke (steady_provider scenario_A) ''show'' (constructed scenario_A) =
     Some (Inr (show_dashboard (constructed scenario_A))) \<and>
   animation (constructed scenario_A) = Some 5000 \<and>
   animation (show_dashboard (constructed scenario_A)) = Some 5000 \<and>
   fire (show_dashboard (constructed scenario_A)) 1 =
     update_dashboard (show_dashboard (constructed scenario_A)) 1"
proof -
  have i: "invoke (steady_provider scenario_A) ''show'' (constructed scenario_A) =
             Some (Inr (show_dashboard (constructed scenario_A)))"
    by (simp add: invoke_def)
  show ?thesis
    using no_method_cancels_timer [OF i constructed_fields(2), of 1] i constructed_fields(2)
    by simp
qed

theorem stop_counterexample:
  "invoke (steady_provider scenario_A) ''stop'' (constructed scenario_A) =
     Some (Inl (AttributeError ''stop'')) \<and>
   animation (constructed scenario_A) = Some 5000 \<and>
   ready (shown ax1 (fire (constructed scenario_A) 1))"
proof -
  have "ready (shown ax1 (fire (constructed scenario_A) 1))" by code_simp
  then show ?thesis by (simp add: invoke_def constructed_fields)
qed

text \<open>
  C8. \<open>fetch_live_positions\<close> reads no cancellation condition: when it ends at all, it
  ends with an exception, the one that \<open>session.load(live=True)\<close> or \<open>session.drivers\<close>
  raised in some pass of the loop. With a provider that keeps answering it runs for ever.
\<close>

theorem live_fetch_ends_only_by_exception:
  assumes "fetch_live_positions P self = Some r"
  shows "\<exists>e n. r = Inl e \<and> loads self \<le> n \<and>
           (load P True n = Inl e \<or> (\<exists>s. load P True n = Inr s \<and> session_drivers s = Inl e))"
proof -
  let ?Q = "\<lambda>(st :: 'a provider \<times> 'a dash) (r :: exn + 'a dash).
              \<exists>e n. r = Inl e \<and> loads (snd st) \<le> n \<and>
                (load (fst st) True n = Inl e \<or>
                 (\<exists>s. load (fst st) True n = Inr s \<and> session_drivers s = Inl e))"
  have "?Q (P, self) r"
  proof (rule fetch_live_positions.raw_induct [where Pa = ?Q, OF _ assms])
    fix f and P :: "'a provider" and self :: "'a dash" and r
    assume IH: "\<And>P self y. f P self = Some y \<Longrightarrow> ?Q (P, self) y"
    assume step: "(case load P True (loads self) of
                     Inl e \<Rightarrow> Some (Inl e)
                   | Inr s \<Rightarrow> (case session_drivers s of
                                Inl e \<Rightarrow> Some (Inl e)
                              | Inr ds \<Rightarrow> f P (live_iteration s ds self))) = Some r"
    show "?Q (P, self) r"
    proof (cases "load P True (loads self)")
      case (Inl e)
      with step have "r = Inl e" by simp
      with Inl show ?thesis by auto
    next
      case (Inr s)
      show ?thesis
      proof (cases "session_drivers s")
        case (Inl e)
        with step Inr have "r = Inl e" by simp
        with Inl Inr show ?thesis by auto
      next
        case ds: (Inr ds)
        with step Inr have "f P (live_iteration s ds self) = Some r" by simp
        from IH [OF this] obtain e n where
          "r = Inl e" "Suc (loads self) \<le> n"
          "load P True n = Inl e \<or> (\<exists>s. load P True n = Inr s \<and> session_drivers s = Inl e)"
          by (auto simp add: loads_live_iteration)
        then show ?thesis
          by (auto intro!: exI [of _ e] exI [of _ n])
      qed
    qed
  qed
  then show ?thesis by simp
qed

lemma dropping_step:
  "loads self < 3 \<Longrightarrow>
   fetch_live_positions dropping_provider self =
     fetch_live_positions dropping_provider (live_iteration race_two [''1'', ''44''] self)"
  by (subst fetch_live_positions.simps)
     (simp add: dropping_provider_def race_two_def table_session_def)

lemma dropping_stop:
  "loads self = 3 \<Longrightarrow>
   fetch_live_positions dropping_provider self =
     Some (Inl (Exn ''ConnectionError'' ''session unreachable''))"
  by (subst fetch_live_positions.simps) (simp add: dropping_provider_def)

theorem live_fetch_ends_only_by_exception_witness:
  "fetch_live_positions dropping_provider (constructed race_two) =
     Some (Inl (Exn ''ConnectionError'' ''session unreachable'')) \<and>
   (\<exists>e n. loads (constructed race_two) \<le> n \<and>
      (load dropping_provider True n = Inl e \<or>
       (\<exists>s. load dropping_provider True n = Inr s \<and> session_drivers s = Inl e)))"
proof -
  have run: "fetch_live_positions dropping_provider (constructed race_two) =
          Some (Inl (Exn ''ConnectionError'' ''session unreachable''))"
    by (simp add: dropping_step dropping_stop loads_live_iteration constructed_fields)
  show ?thesis
    using live_fetch_ends_only_by_exception [OF run] run by blast
qed

theorem live_fetch_never_cancelled_counterexample:
  "fetch_live_positions (steady_provider scenario_A) (constructed scenario_A) = None"
proof -
  let ?Q = "\<lambda>(st :: lap provider \<times> lap dash) (r :: exn + lap dash).
              fst st \<noteq> steady_provider scenario_A"
  have never: "False" if run: "fetch_live_positions (steady_provider scenario_A) self = Some r" for self r
  proof -
    have "?Q (steady_provider scenario_A, self) r"
    proof (rule fetch_live_positions.raw_induct [where Pa = ?Q, OF _ run])
      fix f and P :: "lap provider" and self :: "lap dash" and r
      assume IH: "\<And>P self y. f P self = Some y \<Longrightarrow> ?Q (P, self) y"
      assume step: "(case load P True (loads self) of
                       Inl e \<Rightarrow> Some (Inl e)
                     | Inr s \<Rightarrow> (case session_drivers s of
                                  Inl e \<Rightarrow> Some (Inl e)
                                | Inr ds \<Rightarrow> f P (live_iteration s ds self))) = Some r"
      show "?Q (P, self) r"
      proof (cases "P = steady_provider scenario_A")
        case True
        with step have "f P (live_iteration scenario_A [''1'', ''44''] self) = Some r"
          by (simp add: steady_provider_def scenario_A_def table_session_def)
        from IH [OF this] show ?thesis by simp
      next
        case False
        then show ?thesis by simp
      qed
    qed
    then show False by simp
  qed
  show ?thesis
  proof (cases "fetch_live_positions (steady_provider scenario_A) (constructed scenario_A)")
    case None
    then show ?thesis .
  next
    case (Some r)
    with never show ?thesis by blast
  qed
qed

end
